theory Spec2Isabelle
  imports Main "HOL-Library.Word"
begin

section \<open>Python values, exceptions and the outside world\<close>

text \<open>
  Every exception the modelled code can raise or let through is a value of \<open>error\<close>;
  a function that may raise returns \<open>error + 'a\<close>, with \<open>Inl\<close> for the raise.
  \<open>UnboundLocalError\<close> carries the name of the local variable that was read before
  any assignment; \<open>KeyError\<close> the missing key; \<open>AttributeError\<close> the attribute.
  \<open>ExternalError\<close> stands for whatever the collaborators outside the modelled files
  raise (the HTTP library on a network failure, the configuration loader).
\<close>

datatype error =
    AuthenticationError string
  | ValueError string
  | KeyError string
  | UnboundLocalError string
  | AttributeError string
  | JSONDecodeError
  | ExternalError string

text \<open>
  The value \<open>response.json()\<close> returns: a Python object built from JSON. A Python
  float is an IEEE double, kept as its 64 bits. A dict is the list of its items.
\<close>

datatype json =
    JNull
  | JBool bool
  | JInt int
  | JFloat "64 word"
  | JStr string
  | JArr "json list"
  | JObj "(string \<times> json) list"

text \<open>Python truthiness, as \<open>not exchanged_token\<close> tests it.\<close>

fun truthy :: "json \<Rightarrow> bool" where
  "truthy JNull = False"
| "truthy (JBool b) = b"
| "truthy (JInt n) = (n \<noteq> 0)"
| "truthy (JFloat w) = (take_bit 63 w \<noteq> 0)"
| "truthy (JStr s) = (s \<noteq> [])"
| "truthy (JArr xs) = (xs \<noteq> [])"
| "truthy (JObj kvs) = (kvs \<noteq> [])"

text \<open>\<open>d.get(key, default)\<close> on a dict.\<close>

definition dict_get :: "(string \<times> 'a) list \<Rightarrow> string \<Rightarrow> 'a \<Rightarrow> 'a" where
  "dict_get d key dflt = (case map_of d key of None \<Rightarrow> dflt | Some v \<Rightarrow> v)"

text \<open>\<open>d[key]\<close> on a dict: a missing key raises \<open>KeyError\<close>.\<close>

definition dict_index :: "(string \<times> 'a) list \<Rightarrow> string \<Rightarrow> error + 'a" where
  "dict_index d key = (case map_of d key of None \<Rightarrow> Inl (KeyError key) | Some v \<Rightarrow> Inr v)"

text \<open>
  The formatting of a value inside an f-string: a \<open>str\<close> is inserted as it is; for any
  other value Python's builtin \<open>str()\<close> is applied, which is taken as the parameter
  \<open>py_str\<close>.
\<close>

definition format_value :: "(json \<Rightarrow> string) \<Rightarrow> json \<Rightarrow> string" where
  "format_value py_str v = (case v of JStr s \<Rightarrow> s | _ \<Rightarrow> py_str v)"

text \<open>
  A call of \<open>requests.post(url, data=..., timeout=...)\<close>: a form-encoded POST. A form
  field whose Python value is \<open>None\<close> is \<open>None\<close> here.
\<close>

record http_request =
  url :: string
  data :: "(string \<times> string option) list"
  timeout :: int

text \<open>
  The response object: \<open>body_text\<close> is \<open>response.text\<close>, \<open>json\<close> is what \<open>response.json()\<close> returns, \<open>None\<close> when
  it raises because the body is not JSON.
\<close>

record http_response =
  status_code :: int
  body_text :: string
  json :: "json option"

text \<open>
  The world outside the process: \<open>respond\<close> is the network and the servers behind it,
  answering a request given the requests made so far (\<open>Inl\<close> when the HTTP library
  raises instead of returning a response); \<open>sent\<close> is the log of the requests made,
  oldest first; \<open>logger_level\<close> is the level of the logger named "destinepyauth".
\<close>

record world =
  respond :: "http_request list \<Rightarrow> http_request \<Rightarrow> error + http_response"
  sent :: "http_request list"
  logger_level :: int

definition logging_INFO :: int where
  "logging_INFO = 20"

definition logging_DEBUG :: int where
  "logging_DEBUG = 10"

definition requests_post ::
  "string \<Rightarrow> (string \<times> string option) list \<Rightarrow> int \<Rightarrow> world \<Rightarrow> (error + http_response) \<times> world" where
  "requests_post u d t w =
     (let req = \<lparr>url = u, data = d, timeout = t\<rparr>
      in (respond w (sent w) req, w\<lparr>sent := sent w @ [req]\<rparr>))"

section \<open>configs.py\<close>

record BaseExchangeConfig =
  token_url :: "string option"
  audience :: "string option"
  subject_issuer :: "string option"
  client_id :: "string option"

text \<open>
  The value of an attribute of the configuration object. The fields are declared
  \<open>str\<close>, \<open>str | None\<close> or \<open>BaseExchangeConfig | None\<close>, and \<open>setattr\<close> stores
  whatever it is given, so a field holds any of the three.
\<close>

datatype pyval = PNone | PStr string | PExchange BaseExchangeConfig

record BaseConfig =
  user :: pyval
  password :: pyval
  iam_url :: pyval
  iam_realm :: pyval
  iam_client :: pyval
  iam_redirect_uri :: pyval
  scope :: pyval
  exchange_config :: pyval

text \<open>The declared defaults of the fields, before environment and command line.\<close>

definition BaseConfig_defaults :: BaseConfig where
  "BaseConfig_defaults =
     \<lparr>user = PNone, password = PNone,
      iam_url = PStr ''https://auth.destine.eu'', iam_realm = PStr ''desp'',
      iam_client = PNone, iam_redirect_uri = PNone,
      scope = PStr ''openid'', exchange_config = PNone\<rparr>"

text \<open>The names of the declared fields.\<close>

definition field_names :: "string list" where
  "field_names =
     [''user'', ''password'', ''iam_url'', ''iam_realm'', ''iam_client'',
      ''iam_redirect_uri'', ''scope'', ''exchange_config'']"

text \<open>\<open>getattr(config, key, None)\<close>: an attribute the object does not have gives None.\<close>

definition getattr :: "BaseConfig \<Rightarrow> string \<Rightarrow> pyval" where
  "getattr config key =
     (if key = ''user'' then user config
      else if key = ''password'' then password config
      else if key = ''iam_url'' then iam_url config
      else if key = ''iam_realm'' then iam_realm config
      else if key = ''iam_client'' then iam_client config
      else if key = ''iam_redirect_uri'' then iam_redirect_uri config
      else if key = ''scope'' then scope config
      else if key = ''exchange_config'' then exchange_config config
      else PNone)"

text \<open>
  \<open>setattr(config, key, value)\<close>: the model class stores the value in a declared field
  and raises \<open>ValueError\<close> for a name that is not a field.
\<close>

definition setattr :: "BaseConfig \<Rightarrow> string \<Rightarrow> pyval \<Rightarrow> error + BaseConfig" where
  "setattr config key v =
     (if key = ''user'' then Inr (config\<lparr>user := v\<rparr>)
      else if key = ''password'' then Inr (config\<lparr>password := v\<rparr>)
      else if key = ''iam_url'' then Inr (config\<lparr>iam_url := v\<rparr>)
      else if key = ''iam_realm'' then Inr (config\<lparr>iam_realm := v\<rparr>)
      else if key = ''iam_client'' then Inr (config\<lparr>iam_client := v\<rparr>)
      else if key = ''iam_redirect_uri'' then Inr (config\<lparr>iam_redirect_uri := v\<rparr>)
      else if key = ''scope'' then Inr (config\<lparr>scope := v\<rparr>)
      else if key = ''exchange_config'' then Inr (config\<lparr>exchange_config := v\<rparr>)
      else Inl (ValueError (''\"BaseConfig\" object has no field \"'' @ key @ ''\"'')))"

section \<open>services.py: the registry\<close>

text \<open>
  One entry of the registry: the value under "scope", the dict under "defaults" and
  the dict under "token_exchange", the last two \<open>None\<close> when the entry has no such key.
\<close>

record service_info =
  info_scope :: string
  info_defaults :: "(string \<times> string) list option"
  info_token_exchange :: "(string \<times> string) list option"

definition REGISTRY :: "(string \<times> service_info) list" where
  "REGISTRY =
    [(''cacheb'',
        \<lparr>info_scope = ''openid offline_access'',
         info_defaults = Some
           [(''iam_client'', ''edh-public''),
            (''iam_redirect_uri'', ''https://cacheb.dcms.destine.eu/'')],
         info_token_exchange = None\<rparr>),
     (''streamer'',
        \<lparr>info_scope = ''openid'',
         info_defaults = Some
           [(''iam_client'', ''streaming-fe''),
            (''iam_redirect_uri'', ''https://streamer.destine.eu/'')],
         info_token_exchange = None\<rparr>),
     (''insula'',
        \<lparr>info_scope = ''openid'',
         info_defaults = Some
           [(''iam_client'', ''insula-public''),
            (''iam_redirect_uri'', ''https://insula.destine.eu/'')],
         info_token_exchange = None\<rparr>),
     (''eden'',
        \<lparr>info_scope = ''openid'',
         info_defaults = Some
           [(''iam_client'', ''hda-broker-public''),
            (''iam_redirect_uri'', ''https://broker.eden.destine.eu/'')],
         info_token_exchange = None\<rparr>),
     (''dea'',
        \<lparr>info_scope = ''openid'',
         info_defaults = Some
           [(''iam_client'', ''dea_client''),
            (''iam_redirect_uri'', ''https://dea.destine.eu/'')],
         info_token_exchange = None\<rparr>),
     (''highway'',
        \<lparr>info_scope = ''openid'',
         info_defaults = Some
           [(''iam_client'', ''highway-public''),
            (''iam_redirect_uri'',
               ''https://highway.esa.int/sso/auth/realms/highway/broker/DESP_IAM_PROD/endpoint'')],
         info_token_exchange = Some
           [(''token_url'',
               ''https://highway.esa.int/sso/auth/realms/highway/protocol/openid-connect/token''),
            (''audience'', ''highway-public''),
            (''subject_issuer'', ''DESP_IAM_PROD''),
            (''client_id'', ''highway-public'')]\<rparr>),
     (''polytope'',
        \<lparr>info_scope = ''openid offline_access'',
         info_defaults = Some
           [(''iam_client'', ''polytope-api-public''),
            (''iam_redirect_uri'', ''https://polytope.lumi.apps.dte.destination-earth.eu/'')],
         info_token_exchange = None\<rparr>),
     (''hda'',
        \<lparr>info_scope = ''openid'',
         info_defaults = Some
           [(''iam_client'', ''dedl-hda''),
            (''iam_redirect_uri'', ''https://hda.data.destination-earth.eu/stac'')],
         info_token_exchange = Some
           [(''token_url'',
               ''https://identity.data.destination-earth.eu/auth/realms/dedl/protocol/openid-connect/token''),
            (''audience'', ''hda-public''),
            (''subject_issuer'', ''desp-oidc''),
            (''client_id'', ''hda-public'')]\<rparr>)]"

text \<open>\<open>", ".join(names)\<close>.\<close>

fun join_comma :: "string list \<Rightarrow> string" where
  "join_comma [] = []"
| "join_comma [x] = x"
| "join_comma (x # y # ys) = x @ '', '' @ join_comma (y # ys)"

definition list_services :: "string list" where
  "list_services = map fst REGISTRY"

definition get_service_info :: "string \<Rightarrow> error + service_info" where
  "get_service_info service_name =
     (case map_of REGISTRY service_name of
        None \<Rightarrow>
          (let available = join_comma (map fst REGISTRY)
           in Inl (ValueError (''Unknown service: '' @ service_name @ ''. Available: '' @ available)))
      | Some entry \<Rightarrow> Inr entry)"

section \<open>hooks.py: the token exchange\<close>

definition TOKEN_EXCHANGE_GRANT_TYPE :: string where
  "TOKEN_EXCHANGE_GRANT_TYPE = ''urn:ietf:params:oauth:grant-type:token-exchange''"

text \<open>The default value of the keyword argument \<open>subject_token_type\<close>.\<close>

definition DEFAULT_SUBJECT_TOKEN_TYPE :: string where
  "DEFAULT_SUBJECT_TOKEN_TYPE = ''urn:ietf:params:oauth:token-type:access_token''"

text \<open>The dict \<open>data\<close> that is posted as the form.\<close>

definition exchange_data ::
  "string \<Rightarrow> string \<Rightarrow> string \<Rightarrow> string option \<Rightarrow> string \<Rightarrow> (string \<times> string option) list" where
  "exchange_data subject_token subj_issuer subject_token_type cl_id aud =
     [(''grant_type'', Some TOKEN_EXCHANGE_GRANT_TYPE),
      (''subject_token'', Some subject_token),
      (''subject_issuer'', Some subj_issuer),
      (''subject_token_type'', Some subject_token_type),
      (''client_id'', cl_id),
      (''audience'', Some aud)]"

text \<open>
  The \<open>try\<close> block of the failure branch: the value of \<open>error_msg\<close> after it. The
  \<open>except Exception\<close> clause is reached when \<open>response.json()\<close> raises and when its
  result is not a dict (the call of \<open>.get\<close> raises \<open>AttributeError\<close>).
\<close>

definition exchange_error_msg :: "http_response \<Rightarrow> json" where
  "exchange_error_msg response =
     (case json response of
        Some (JObj error_data) \<Rightarrow>
          dict_get error_data ''error_description''
            (dict_get error_data ''error'' (JStr ''Unknown''))
      | _ \<Rightarrow> JStr (take 200 (body_text response)))"

text \<open>
  What \<open>token_exchange\<close> does with the response, from \<open>if response.status_code != 200\<close>
  to the end of the function.
\<close>

definition exchange_result :: "(json \<Rightarrow> string) \<Rightarrow> http_response \<Rightarrow> error + json" where
  "exchange_result py_str response =
     (if status_code response \<noteq> 200 then
        (let error_msg = exchange_error_msg response
         in Inl (AuthenticationError (''Exchange failed: '' @ format_value py_str error_msg)))
      else
        (case json response of
           None \<Rightarrow> Inl JSONDecodeError
         | Some (JObj result) \<Rightarrow>
             (let exchanged_token = dict_get result ''access_token'' JNull
              in if \<not> truthy exchanged_token
                 then Inl (AuthenticationError ''No access token in exchange response'')
                 else Inr exchanged_token)
         | Some _ \<Rightarrow> Inl (AttributeError ''get'')))"

text \<open>
  \<open>token_exchange\<close> takes keyword arguments only. The two with a default value,
  \<open>subject_token_type\<close> and \<open>timeout\<close>, are options here: \<open>None\<close> is the argument
  left out. \<open>client_id\<close> is declared \<open>str\<close>, but the one caller passes the result of
  a \<open>dict.get\<close>, so it may be Python's None. The function returns whatever value the
  response holds under "access_token", once that value is truthy. An exception of
  \<open>requests.post\<close> is not caught. The debug logging is left out.
\<close>

definition token_exchange ::
  "(json \<Rightarrow> string) \<Rightarrow> string \<Rightarrow> string \<Rightarrow> string option \<Rightarrow> string \<Rightarrow> string \<Rightarrow>
   string option \<Rightarrow> int option \<Rightarrow> world \<Rightarrow> (error + json) \<times> world" where
  "token_exchange py_str tok_url subject_token cl_id aud subj_issuer subject_token_type tmo w =
     (let stt = (case subject_token_type of None \<Rightarrow> DEFAULT_SUBJECT_TOKEN_TYPE | Some s \<Rightarrow> s);
          t = (case tmo of None \<Rightarrow> 10 | Some n \<Rightarrow> n);
          form = exchange_data subject_token subj_issuer stt cl_id aud;
          (r, w') = requests_post tok_url form t w
      in case r of
           Inl e \<Rightarrow> (Inl e, w')
         | Inr response \<Rightarrow> (exchange_result py_str response, w'))"

text \<open>
  The one request a call of \<open>token_exchange\<close> makes, as a function of its arguments
  (lemma \<open>token_exchange_snd\<close> below shows that it is).
\<close>

definition exchange_request ::
  "string \<Rightarrow> string \<Rightarrow> string option \<Rightarrow> string \<Rightarrow> string \<Rightarrow> string option \<Rightarrow> int option \<Rightarrow> http_request" where
  "exchange_request tok_url subject_token cl_id aud subj_issuer subject_token_type tmo =
     \<lparr>url = tok_url,
      data = exchange_data subject_token subj_issuer
               (case subject_token_type of None \<Rightarrow> DEFAULT_SUBJECT_TOKEN_TYPE | Some s \<Rightarrow> s)
               cl_id aud,
      timeout = (case tmo of None \<Rightarrow> 10 | Some n \<Rightarrow> n)\<rparr>"

section \<open>services.py: the configuration factory\<close>

text \<open>
  The post-authentication hook: a callable taking the access token and the
  configuration, here also the world it acts on.
\<close>

type_synonym hook = "string \<Rightarrow> BaseConfig \<Rightarrow> world \<Rightarrow> (error + json) \<times> world"

text \<open>
  The closure \<open>_exchange_hook\<close>, with the four variables it captures as its first
  arguments (after \<open>py_str\<close>).
\<close>

definition exchange_hook ::
  "(json \<Rightarrow> string) \<Rightarrow> string \<Rightarrow> string \<Rightarrow> string \<Rightarrow> string option \<Rightarrow> hook" where
  "exchange_hook py_str tok_url aud subj_issuer cl_id =
     (\<lambda>access_token cfg.
        token_exchange py_str tok_url access_token cl_id aud subj_issuer None (Some 10))"

text \<open>
  The loop over \<open>defaults.items()\<close>: a field whose current value is None is set to
  the default.
\<close>

fun apply_defaults :: "(string \<times> string) list \<Rightarrow> BaseConfig \<Rightarrow> error + BaseConfig" where
  "apply_defaults [] config = Inr config"
| "apply_defaults ((key, default_value) # rest) config =
     (let current_value = getattr config key
      in if current_value = PNone
         then (case setattr config key (PStr default_value) of
                 Inl e \<Rightarrow> Inl e
               | Inr config' \<Rightarrow> apply_defaults rest config')
         else apply_defaults rest config)"

text \<open>
  A local variable of a Python function: unbound until an assignment is executed.
  Reading an unbound local raises \<open>UnboundLocalError\<close>.
\<close>

datatype 'a local_var = Unbound | Bound 'a

definition read_local :: "string \<Rightarrow> 'a local_var \<Rightarrow> error + 'a" where
  "read_local name v = (case v of Unbound \<Rightarrow> Inl (UnboundLocalError name) | Bound x \<Rightarrow> Inr x)"

text \<open>
  The block under \<open>if exchange_cfg is not None\<close>, which holds the only assignment to
  the local variable \<open>hook\<close>: the result is the state of that variable after it.
\<close>

definition build_hook ::
  "(json \<Rightarrow> string) \<Rightarrow> (string \<times> string) list option \<Rightarrow> error + (hook option) local_var" where
  "build_hook py_str exchange_cfg =
     (case exchange_cfg of
        None \<Rightarrow> Inr Unbound
      | Some ex \<Rightarrow>
          (case dict_index ex ''token_url'' of
             Inl e \<Rightarrow> Inl e
           | Inr tok_url \<Rightarrow>
               (case dict_index ex ''audience'' of
                  Inl e \<Rightarrow> Inl e
                | Inr aud \<Rightarrow>
                    (case dict_index ex ''subject_issuer'' of
                       Inl e \<Rightarrow> Inl e
                     | Inr subj_issuer \<Rightarrow>
                         (let cl_id = map_of ex ''client_id''
                          in Inr (Bound (Some (exchange_hook py_str tok_url aud subj_issuer cl_id))))))))"

text \<open>
  \<open>conflator_load\<close> is the result of \<open>Conflator("despauth", BaseConfig).load()\<close>: the
  configuration resolved from files, environment and command line, or the exception
  the loader raised.
\<close>

definition load_config ::
  "(json \<Rightarrow> string) \<Rightarrow> error + BaseConfig \<Rightarrow> string \<Rightarrow> error + (BaseConfig \<times> string \<times> hook option)" where
  "load_config py_str conflator_load service_name =
     (case get_service_info service_name of
        Inl e \<Rightarrow> Inl e
      | Inr info \<Rightarrow>
          (let scope_str = info_scope info;
               defaults = (case info_defaults info of None \<Rightarrow> [] | Some d \<Rightarrow> d);
               exchange_cfg = info_token_exchange info
           in case conflator_load of
                Inl e \<Rightarrow> Inl e
              | Inr loaded \<Rightarrow>
                  (case apply_defaults defaults loaded of
                     Inl e \<Rightarrow> Inl e
                   | Inr config \<Rightarrow>
                       (case build_hook py_str exchange_cfg of
                          Inl e \<Rightarrow> Inl e
                        | Inr hook_var \<Rightarrow>
                            (case read_local ''hook'' hook_var of
                               Inl e \<Rightarrow> Inl e
                             | Inr h \<Rightarrow> Inr (config, scope_str, h))))))"

section \<open>api.py\<close>

text \<open>
  The module \<open>destinepyauth.authentication\<close> is a parameter of \<open>get_token\<close>: the
  constructor of \<open>AuthenticationService\<close> and its two methods, for any type \<open>'svc\<close> of
  service objects and any type \<open>'tr\<close> of results.
\<close>

record ('svc, 'tr) authentication =
  AuthenticationService :: "BaseConfig \<Rightarrow> string \<Rightarrow> hook option \<Rightarrow> world \<Rightarrow> (error + 'svc) \<times> world"
  login :: "'svc \<Rightarrow> bool \<Rightarrow> world \<Rightarrow> (error + 'tr) \<times> world"
  login_2fa :: "'svc \<Rightarrow> bool \<Rightarrow> string option \<Rightarrow> world \<Rightarrow> (error + 'tr) \<times> world"

text \<open>
  \<open>get_token\<close>. A call that falls off the end of the function returns Python's None:
  \<open>Inr None\<close>.
\<close>

definition get_token ::
  "(json \<Rightarrow> string) \<Rightarrow> error + BaseConfig \<Rightarrow> ('svc, 'tr) authentication \<Rightarrow>
   string \<Rightarrow> bool \<Rightarrow> bool \<Rightarrow> bool \<Rightarrow> string option \<Rightarrow> world \<Rightarrow> (error + 'tr option) \<times> world" where
  "get_token py_str conflator_load auth service write_netrc verbose twofa otp w0 =
     (let log_level = (if \<not> verbose then logging_INFO else logging_DEBUG);
          w1 = w0\<lparr>logger_level := log_level\<rparr>
      in case load_config py_str conflator_load service of
           Inl e \<Rightarrow> (Inl e, w1)
         | Inr (config, scope_str, h) \<Rightarrow>
             (case AuthenticationService auth config scope_str h w1 of
                (Inl e, w2) \<Rightarrow> (Inl e, w2)
              | (Inr auth_service, w2) \<Rightarrow>
                  (case (if twofa
                         then login_2fa auth auth_service write_netrc otp w2
                         else login auth auth_service write_netrc w2) of
                     (Inl e, w3) \<Rightarrow> (Inl e, w3)
                   | (Inr result, w3) \<Rightarrow>
                       if \<not> write_netrc then (Inr (Some result), w3) else (Inr None, w3))))"

section \<open>Properties of the registry lookup\<close>

lemma list_services_eq:
  "list_services =
     [''cacheb'', ''streamer'', ''insula'', ''eden'', ''dea'', ''highway'', ''polytope'', ''hda'']"
  by (simp add: list_services_def REGISTRY_def)

lemma available_eq:
  "join_comma (map fst REGISTRY) =
     ''cacheb, streamer, insula, eden, dea, highway, polytope, hda''"
  by (simp add: REGISTRY_def)

lemma get_service_info_cases:
  "get_service_info n =
     (case map_of REGISTRY n of
        None \<Rightarrow> Inl (ValueError (''Unknown service: '' @ n @
          ''. Available: cacheb, streamer, insula, eden, dea, highway, polytope, hda''))
      | Some entry \<Rightarrow> Inr entry)"
  unfolding get_service_info_def Let_def available_eq
  by (cases "map_of REGISTRY n") simp_all

text \<open>
  C4. \<open>get_service_info\<close> raises exactly when the name is not one of the registered
  names; what it raises is then a \<open>ValueError\<close> (with the message naming the service
  and the registered names) and never an \<open>AuthenticationError\<close>; for a registered name
  it returns the entry the registry holds under that name.
\<close>

theorem get_service_info_raises_iff_unregistered:
  "((\<exists>e. get_service_info n = Inl e) \<longleftrightarrow> n \<notin> set list_services)
   \<and> (\<forall>e. get_service_info n = Inl e \<longrightarrow>
          e = ValueError (''Unknown service: '' @ n @
                ''. Available: cacheb, streamer, insula, eden, dea, highway, polytope, hda''))
   \<and> (\<forall>m. get_service_info n \<noteq> Inl (AuthenticationError m))
   \<and> (n \<in> set list_services \<longrightarrow>
          (\<exists>entry. map_of REGISTRY n = Some entry \<and> get_service_info n = Inr entry))"
proof -
  have dom: "(map_of REGISTRY n = None) = (n \<notin> set list_services)"
    by (simp add: map_of_eq_None_iff list_services_def)
  show ?thesis
    unfolding get_service_info_cases using dom
    by (cases "map_of REGISTRY n") auto
qed

theorem get_service_info_raises_iff_unregistered_witness:
  "get_service_info ''nosuch'' = Inl (ValueError
      ''Unknown service: nosuch. Available: cacheb, streamer, insula, eden, dea, highway, polytope, hda'')
   \<and> get_service_info ''eden'' = Inr
        \<lparr>info_scope = ''openid'',
         info_defaults = Some
           [(''iam_client'', ''hda-broker-public''),
            (''iam_redirect_uri'', ''https://broker.eden.destine.eu/'')],
         info_token_exchange = None\<rparr>"
proof -
  have a: "''nosuch'' \<notin> set list_services" by (simp add: list_services_eq)
  have b: "''eden'' \<in> set list_services" by (simp add: list_services_eq)
  have c: "map_of REGISTRY ''eden'' = Some
        \<lparr>info_scope = ''openid'',
         info_defaults = Some
           [(''iam_client'', ''hda-broker-public''),
            (''iam_redirect_uri'', ''https://broker.eden.destine.eu/'')],
         info_token_exchange = None\<rparr>"
    by (simp add: REGISTRY_def)
  from get_service_info_raises_iff_unregistered [of "''nosuch''"] a
  have 1: "get_service_info ''nosuch'' = Inl (ValueError
      ''Unknown service: nosuch. Available: cacheb, streamer, insula, eden, dea, highway, polytope, hda'')"
    by auto
  from get_service_info_raises_iff_unregistered [of "''eden''"] b c
  have 2: "get_service_info ''eden'' = Inr
        \<lparr>info_scope = ''openid'',
         info_defaults = Some
           [(''iam_client'', ''hda-broker-public''),
            (''iam_redirect_uri'', ''https://broker.eden.destine.eu/'')],
         info_token_exchange = None\<rparr>"
    by auto
  from 1 2 show ?thesis by simp
qed

section \<open>Properties of the token exchange\<close>

lemma token_exchange_fst:
  "fst (token_exchange py_str u st cid aud si stt tmo w) =
     (case respond w (sent w) (exchange_request u st cid aud si stt tmo) of
        Inl e \<Rightarrow> Inl e
      | Inr response \<Rightarrow> exchange_result py_str response)"
  by (simp add: token_exchange_def requests_post_def exchange_request_def Let_def split: sum.split)

lemma token_exchange_snd:
  "snd (token_exchange py_str u st cid aud si stt tmo w) =
     w\<lparr>sent := sent w @ [exchange_request u st cid aud si stt tmo]\<rparr>"
  by (simp add: token_exchange_def requests_post_def exchange_request_def Let_def split: sum.split)

lemma exchange_request_literal:
  "exchange_request u st cid aud si stt tmo =
     \<lparr>url = u,
      data = [(''grant_type'', Some ''urn:ietf:params:oauth:grant-type:token-exchange''),
              (''subject_token'', Some st),
              (''subject_issuer'', Some si),
              (''subject_token_type'',
                 Some (case stt of
                         None \<Rightarrow> ''urn:ietf:params:oauth:token-type:access_token''
                       | Some s \<Rightarrow> s)),
              (''client_id'', cid),
              (''audience'', Some aud)],
      timeout = (case tmo of None \<Rightarrow> 10 | Some n \<Rightarrow> n)\<rparr>"
  unfolding exchange_request_def exchange_data_def TOKEN_EXCHANGE_GRANT_TYPE_def
    DEFAULT_SUBJECT_TOKEN_TYPE_def
  by (rule refl)

lemma exchange_result_ok:
  assumes "status_code response = 200"
    and "json response = Some (JObj result)"
    and "map_of result ''access_token'' = Some tok"
    and "truthy tok"
  shows "exchange_result py_str response = Inr tok"
  using assms by (simp add: exchange_result_def dict_get_def)

lemma exchange_result_failure:
  assumes "status_code response \<noteq> 200"
  shows "exchange_result py_str response =
           Inl (AuthenticationError (''Exchange failed: '' @
                  format_value py_str (exchange_error_msg response)))"
  using assms by (simp add: exchange_result_def)



text \<open>
  C3. A call of \<open>token_exchange\<close> adds exactly one request to the log of requests,
  whatever the outcome (so nothing is ever sent twice): a form post to the given token
  URL whose \<open>grant_type\<close> is "urn:ietf:params:oauth:grant-type:token-exchange",
  whose \<open>subject_token_type\<close> is "urn:ietf:params:oauth:token-type:access_token"
  when the argument is left out, and whose timeout is 10 when the argument is left out.
  When the answer has status 200 and a JSON object whose \<open>access_token\<close> is a truthy
  value (a non-empty string, in particular), the call returns exactly that value.
\<close>

theorem token_exchange_posts_once:
  "(let req = \<lparr>url = u,
               data = [(''grant_type'', Some ''urn:ietf:params:oauth:grant-type:token-exchange''),
                       (''subject_token'', Some st),
                       (''subject_issuer'', Some si),
                       (''subject_token_type'',
                          Some (case stt of
                                  None \<Rightarrow> ''urn:ietf:params:oauth:token-type:access_token''
                                | Some s \<Rightarrow> s)),
                       (''client_id'', cid),
                       (''audience'', Some aud)],
               timeout = (case tmo of None \<Rightarrow> 10 | Some n \<Rightarrow> n)\<rparr>
    in snd (token_exchange py_str u st cid aud si stt tmo w) = w\<lparr>sent := sent w @ [req]\<rparr>
       \<and> (\<forall>response result tok.
             respond w (sent w) req = Inr response \<and> status_code response = 200
             \<and> json response = Some (JObj result)
             \<and> map_of result ''access_token'' = Some tok \<and> truthy tok
             \<longrightarrow> fst (token_exchange py_str u st cid aud si stt tmo w) = Inr tok))"
proof -
  have "snd (token_exchange py_str u st cid aud si stt tmo w) =
          w\<lparr>sent := sent w @ [exchange_request u st cid aud si stt tmo]\<rparr>"
    by (rule token_exchange_snd)
  moreover have "fst (token_exchange py_str u st cid aud si stt tmo w) = Inr tok"
    if "respond w (sent w) (exchange_request u st cid aud si stt tmo) = Inr response"
      and "status_code response = 200" and "json response = Some (JObj result)"
      and "map_of result ''access_token'' = Some tok" and "truthy tok"
    for response result tok
    using that by (simp add: token_exchange_fst exchange_result_ok)
  ultimately show ?thesis
    unfolding Let_def exchange_request_literal [symmetric] by blast
qed

theorem token_exchange_posts_once_witness:
  "fst (token_exchange (\<lambda>v. [])
          ''https://sso.example/token'' ''abc'' (Some ''cl'') ''aud'' ''iss'' None None
          \<lparr>respond = (\<lambda>log req. Inr \<lparr>status_code = 200, body_text = ''{\"access_token\": \"xyz\"}'',
                                       json = Some (JObj [(''access_token'', JStr ''xyz'')])\<rparr>),
           sent = [], logger_level = 20\<rparr>) = Inr (JStr ''xyz'')
   \<and> sent (snd (token_exchange (\<lambda>v. [])
          ''https://sso.example/token'' ''abc'' (Some ''cl'') ''aud'' ''iss'' None None
          \<lparr>respond = (\<lambda>log req. Inr \<lparr>status_code = 200, body_text = ''{\"access_token\": \"xyz\"}'',
                                       json = Some (JObj [(''access_token'', JStr ''xyz'')])\<rparr>),
           sent = [], logger_level = 20\<rparr>)) =
       [\<lparr>url = ''https://sso.example/token'',
         data = [(''grant_type'', Some ''urn:ietf:params:oauth:grant-type:token-exchange''),
                 (''subject_token'', Some ''abc''),
                 (''subject_issuer'', Some ''iss''),
                 (''subject_token_type'', Some ''urn:ietf:params:oauth:token-type:access_token''),
                 (''client_id'', Some ''cl''),
                 (''audience'', Some ''aud'')],
         timeout = 10\<rparr>]"
  using token_exchange_posts_once [of "''https://sso.example/token''" "''abc''" "''iss''" None
      "Some ''cl''" "''aud''" None "\<lambda>v. []"
      "\<lparr>respond = (\<lambda>log req. Inr \<lparr>status_code = 200, body_text = ''{\"access_token\": \"xyz\"}'',
                                       json = Some (JObj [(''access_token'', JStr ''xyz'')])\<rparr>),
           sent = [], logger_level = 20\<rparr>"]
  by (simp add: Let_def)

text \<open>
  C2, as amended. When the response status is not 200, \<open>token_exchange\<close> raises
  \<open>AuthenticationError\<close> and returns no token. The message is "Exchange failed: "
  followed by: the \<open>error_description\<close> field when the body is a JSON object that has
  it; else its \<open>error\<close> field when it has one; else the literal "Unknown" when the
  body is a JSON object with neither field; and the first 200 characters of the raw
  body when the body is not JSON or not a JSON object. In particular a 400 response
  with body {"error":"invalid_grant"} raises with the message
  "Exchange failed: invalid_grant".
\<close>

theorem token_exchange_failure_raises:
  "(respond w (sent w) (exchange_request u st cid aud si stt tmo) = Inr response
      \<and> status_code response \<noteq> 200
    \<longrightarrow> fst (token_exchange py_str u st cid aud si stt tmo w) =
          Inl (AuthenticationError (''Exchange failed: '' @
            (case json response of
               Some (JObj d) \<Rightarrow>
                 (case map_of d ''error_description'' of
                    Some v \<Rightarrow> format_value py_str v
                  | None \<Rightarrow>
                      (case map_of d ''error'' of
                         Some v \<Rightarrow> format_value py_str v
                       | None \<Rightarrow> ''Unknown''))
             | _ \<Rightarrow> take 200 (body_text response)))))
   \<and> (respond w (sent w) (exchange_request u st cid aud si stt tmo) = Inr response
      \<and> status_code response = 400
      \<and> json response = Some (JObj [(''error'', JStr ''invalid_grant'')])
    \<longrightarrow> fst (token_exchange py_str u st cid aud si stt tmo w) =
          Inl (AuthenticationError ''Exchange failed: invalid_grant''))"
proof -
  have msg: "format_value py_str (exchange_error_msg response) =
      (case json response of
         Some (JObj d) \<Rightarrow>
           (case map_of d ''error_description'' of
              Some v \<Rightarrow> format_value py_str v
            | None \<Rightarrow>
                (case map_of d ''error'' of
                   Some v \<Rightarrow> format_value py_str v
                 | None \<Rightarrow> ''Unknown''))
       | _ \<Rightarrow> take 200 (body_text response))"
    by (simp add: exchange_error_msg_def dict_get_def format_value_def
             split: option.split json.split)
  have general: "fst (token_exchange py_str u st cid aud si stt tmo w) =
      Inl (AuthenticationError (''Exchange failed: '' @ format_value py_str (exchange_error_msg response)))"
    if "respond w (sent w) (exchange_request u st cid aud si stt tmo) = Inr response"
      and "status_code response \<noteq> 200"
    using that by (simp add: token_exchange_fst exchange_result_failure)
  have particular: "fst (token_exchange py_str u st cid aud si stt tmo w) =
      Inl (AuthenticationError ''Exchange failed: invalid_grant'')"
    if r: "respond w (sent w) (exchange_request u st cid aud si stt tmo) = Inr response"
      and s: "status_code response = 400"
      and j: "json response = Some (JObj [(''error'', JStr ''invalid_grant'')])"
  proof -
    from s have "status_code response \<noteq> 200" by simp
    from general [OF r this] show ?thesis
      unfolding msg j by (simp add: format_value_def)
  qed
  from general particular show ?thesis
    unfolding msg by blast
qed

theorem token_exchange_failure_raises_witness:
  "fst (token_exchange (\<lambda>v. []) ''https://sso.example/token'' ''abc'' (Some ''cl'') ''aud'' ''iss'' None None
          \<lparr>respond = (\<lambda>log req. Inr \<lparr>status_code = 400, body_text = ''{\"error\":\"invalid_grant\"}'',
                                       json = Some (JObj [(''error'', JStr ''invalid_grant'')])\<rparr>),
           sent = [], logger_level = 20\<rparr>) =
     Inl (AuthenticationError ''Exchange failed: invalid_grant'')"
  using token_exchange_failure_raises [of
      "\<lparr>respond = (\<lambda>log req. Inr \<lparr>status_code = 400, body_text = ''{\"error\":\"invalid_grant\"}'',
                                       json = Some (JObj [(''error'', JStr ''invalid_grant'')])\<rparr>),
           sent = [], logger_level = 20\<rparr>"
      "''https://sso.example/token''" "''abc''" "Some ''cl''" "''aud''" "''iss''" None None
      "\<lparr>status_code = 400, body_text = ''{\"error\":\"invalid_grant\"}'',
                                       json = Some (JObj [(''error'', JStr ''invalid_grant'')])\<rparr>"
      "\<lambda>v. []"]
  by (simp add: format_value_def)

text \<open>
  The claim as first stated promises the first 200 characters of the raw body whenever
  neither field is present. For a 400 response whose body is the JSON object {} the
  message is "Exchange failed: Unknown", not "Exchange failed: {}".
\<close>

theorem token_exchange_unknown_counterexample:
  "fst (token_exchange (\<lambda>v. []) ''https://sso.example/token'' ''abc'' (Some ''cl'') ''aud'' ''iss'' None None
          \<lparr>respond = (\<lambda>log req. Inr \<lparr>status_code = 400, body_text = ''{}'', json = Some (JObj [])\<rparr>),
           sent = [], logger_level = 20\<rparr>) =
     Inl (AuthenticationError ''Exchange failed: Unknown'')
   \<and> ''Exchange failed: Unknown'' \<noteq> ''Exchange failed: '' @
         take 200 (body_text \<lparr>status_code = 400, body_text = ''{}'', json = Some (JObj [])\<rparr>)"
  by (simp add: token_exchange_fst exchange_result_def exchange_error_msg_def dict_get_def
        format_value_def)




section \<open>Properties of the configuration factory\<close>

lemma getattr_setattr:
  assumes "key \<in> set field_names"
  shows "\<exists>config'. setattr config key v = Inr config'
           \<and> (\<forall>k. getattr config' k = (if k = key then v else getattr config k))"
  using assms by (auto simp: field_names_def setattr_def getattr_def)

lemma setattr_unknown:
  assumes "key \<notin> set field_names"
  shows "\<exists>e. setattr config key v = Inl e"
  using assms by (simp add: field_names_def setattr_def)

lemma getattr_ext:
  assumes "\<forall>k \<in> set field_names. getattr a k = getattr b k"
  shows "a = b"
proof -
  from assms have "user a = user b" "password a = password b" "iam_url a = iam_url b"
    "iam_realm a = iam_realm b" "iam_client a = iam_client b"
    "iam_redirect_uri a = iam_redirect_uri b" "scope a = scope b"
    "exchange_config a = exchange_config b"
    by (simp_all add: field_names_def getattr_def)
  then show ?thesis by simp
qed

lemma apply_defaults_frame:
  assumes "fst ` set ds \<subseteq> set field_names"
  shows "\<exists>config'. apply_defaults ds config = Inr config'
           \<and> (\<forall>k. getattr config' k =
                  (if getattr config k = PNone \<and> k \<in> fst ` set ds
                   then PStr (the (map_of ds k)) else getattr config k))"
  using assms
proof (induction ds arbitrary: config)
  case Nil
  then show ?case by simp
next
  case (Cons kd rest)
  obtain key d where kd: "kd = (key, d)" by (cases kd)
  from Cons.prems kd have key: "key \<in> set field_names"
    and rest: "fst ` set rest \<subseteq> set field_names" by auto
  show ?case
  proof (cases "getattr config key = PNone")
    case True
    from getattr_setattr [OF key, of config "PStr d"] obtain c1
      where c1: "setattr config key (PStr d) = Inr c1"
        and g1: "\<And>k. getattr c1 k = (if k = key then PStr d else getattr config k)"
      by blast
    from Cons.IH [OF rest, of c1] obtain c2
      where c2: "apply_defaults rest c1 = Inr c2"
        and g2: "\<And>k. getattr c2 k =
                  (if getattr c1 k = PNone \<and> k \<in> fst ` set rest
                   then PStr (the (map_of rest k)) else getattr c1 k)"
      by blast
    have "apply_defaults (kd # rest) config = Inr c2"
      using True c1 c2 kd by simp
    moreover have "getattr c2 k =
         (if getattr config k = PNone \<and> k \<in> fst ` set (kd # rest)
          then PStr (the (map_of (kd # rest) k)) else getattr config k)" for k
      using True kd by (simp add: g2 g1)
    ultimately show ?thesis by blast
  next
    case False
    from Cons.IH [OF rest, of config] obtain c2
      where c2: "apply_defaults rest config = Inr c2"
        and g2: "\<And>k. getattr c2 k =
                  (if getattr config k = PNone \<and> k \<in> fst ` set rest
                   then PStr (the (map_of rest k)) else getattr config k)"
      by blast
    have "apply_defaults (kd # rest) config = Inr c2"
      using False c2 kd by simp
    moreover have "getattr c2 k =
         (if getattr config k = PNone \<and> k \<in> fst ` set (kd # rest)
          then PStr (the (map_of (kd # rest) k)) else getattr config k)" for k
      using False kd by (auto simp: g2)
    ultimately show ?thesis by blast
  qed
qed

lemma registry_defaults_are_fields:
  assumes "map_of REGISTRY n = Some info"
  shows "\<exists>ds. info_defaults info = Some ds \<and> fst ` set ds \<subseteq> set field_names"
  using assms by (auto simp: REGISTRY_def field_names_def split: if_splits)

lemma registry_lookup:
  "map_of REGISTRY ''cacheb'' = Some
     \<lparr>info_scope = ''openid offline_access'',
      info_defaults = Some [(''iam_client'', ''edh-public''),
                            (''iam_redirect_uri'', ''https://cacheb.dcms.destine.eu/'')],
      info_token_exchange = None\<rparr>"
  "map_of REGISTRY ''streamer'' = Some
     \<lparr>info_scope = ''openid'',
      info_defaults = Some [(''iam_client'', ''streaming-fe''),
                            (''iam_redirect_uri'', ''https://streamer.destine.eu/'')],
      info_token_exchange = None\<rparr>"
  "map_of REGISTRY ''insula'' = Some
     \<lparr>info_scope = ''openid'',
      info_defaults = Some [(''iam_client'', ''insula-public''),
                            (''iam_redirect_uri'', ''https://insula.destine.eu/'')],
      info_token_exchange = None\<rparr>"
  "map_of REGISTRY ''eden'' = Some
     \<lparr>info_scope = ''openid'',
      info_defaults = Some [(''iam_client'', ''hda-broker-public''),
                            (''iam_redirect_uri'', ''https://broker.eden.destine.eu/'')],
      info_token_exchange = None\<rparr>"
  "map_of REGISTRY ''dea'' = Some
     \<lparr>info_scope = ''openid'',
      info_defaults = Some [(''iam_client'', ''dea_client''),
                            (''iam_redirect_uri'', ''https://dea.destine.eu/'')],
      info_token_exchange = None\<rparr>"
  "map_of REGISTRY ''highway'' = Some
     \<lparr>info_scope = ''openid'',
      info_defaults = Some
        [(''iam_client'', ''highway-public''),
         (''iam_redirect_uri'',
            ''https://highway.esa.int/sso/auth/realms/highway/broker/DESP_IAM_PROD/endpoint'')],
      info_token_exchange = Some
        [(''token_url'',
            ''https://highway.esa.int/sso/auth/realms/highway/protocol/openid-connect/token''),
         (''audience'', ''highway-public''),
         (''subject_issuer'', ''DESP_IAM_PROD''),
         (''client_id'', ''highway-public'')]\<rparr>"
  "map_of REGISTRY ''polytope'' = Some
     \<lparr>info_scope = ''openid offline_access'',
      info_defaults = Some
        [(''iam_client'', ''polytope-api-public''),
         (''iam_redirect_uri'', ''https://polytope.lumi.apps.dte.destination-earth.eu/'')],
      info_token_exchange = None\<rparr>"
  "map_of REGISTRY ''hda'' = Some
     \<lparr>info_scope = ''openid'',
      info_defaults = Some [(''iam_client'', ''dedl-hda''),
                            (''iam_redirect_uri'', ''https://hda.data.destination-earth.eu/stac'')],
      info_token_exchange = Some
        [(''token_url'',
            ''https://identity.data.destination-earth.eu/auth/realms/dedl/protocol/openid-connect/token''),
         (''audience'', ''hda-public''),
         (''subject_issuer'', ''desp-oidc''),
         (''client_id'', ''hda-public'')]\<rparr>"
  by (simp_all add: REGISTRY_def)

lemma get_service_info_registered:
  assumes "map_of REGISTRY n = Some info"
  shows "get_service_info n = Inr info"
  using assms by (simp add: get_service_info_def)

text \<open>
  What \<open>load_config\<close> does once the registry entry and the loaded configuration are
  known and the loop over the defaults has run.
\<close>

lemma load_config_after_defaults:
  assumes "map_of REGISTRY n = Some info"
    and "info_defaults info = Some ds"
    and "apply_defaults ds loaded = Inr config"
  shows "load_config py_str (Inr loaded) n =
           (case build_hook py_str (info_token_exchange info) of
              Inl e \<Rightarrow> Inl e
            | Inr hook_var \<Rightarrow>
                (case read_local ''hook'' hook_var of
                   Inl e \<Rightarrow> Inl e
                 | Inr h \<Rightarrow> Inr (config, info_scope info, h)))"
  using assms by (simp add: load_config_def get_service_info_def Let_def)

lemma load_config_no_exchange:
  assumes "map_of REGISTRY n = Some info"
    and "info_token_exchange info = None"
  shows "load_config py_str (Inr loaded) n = Inl (UnboundLocalError ''hook'')"
proof -
  from registry_defaults_are_fields [OF assms(1)] obtain ds
    where ds: "info_defaults info = Some ds" and sub: "fst ` set ds \<subseteq> set field_names"
    by blast
  from apply_defaults_frame [OF sub, of loaded] obtain config
    where "apply_defaults ds loaded = Inr config" by blast
  from load_config_after_defaults [OF assms(1) ds this] assms(2) show ?thesis
    by (simp add: build_hook_def read_local_def)
qed

text \<open>
  C1. The claim is that \<open>load_config\<close> returns a triple for every registered name,
  with no hook for a service whose entry has no \<open>token_exchange\<close> section. The code
  assigns the local variable \<open>hook\<close> only inside \<open>if exchange_cfg is not None\<close>,
  so for each of the six registered services without that section the final
  \<open>return config, scope, hook\<close> reads an unbound local: whatever configuration was
  loaded, \<open>load_config\<close> raises \<open>UnboundLocalError\<close> for them and returns nothing.
\<close>

theorem load_config_without_exchange_raises:
  "load_config py_str (Inr loaded) ''cacheb'' = Inl (UnboundLocalError ''hook'')
   \<and> load_config py_str (Inr loaded) ''streamer'' = Inl (UnboundLocalError ''hook'')
   \<and> load_config py_str (Inr loaded) ''insula'' = Inl (UnboundLocalError ''hook'')
   \<and> load_config py_str (Inr loaded) ''eden'' = Inl (UnboundLocalError ''hook'')
   \<and> load_config py_str (Inr loaded) ''dea'' = Inl (UnboundLocalError ''hook'')
   \<and> load_config py_str (Inr loaded) ''polytope'' = Inl (UnboundLocalError ''hook'')"
  by (simp add: load_config_no_exchange [OF registry_lookup(1)]
        load_config_no_exchange [OF registry_lookup(2)]
        load_config_no_exchange [OF registry_lookup(3)]
        load_config_no_exchange [OF registry_lookup(4)]
        load_config_no_exchange [OF registry_lookup(5)]
        load_config_no_exchange [OF registry_lookup(7)])

text \<open>
  C7. For every registered service name the registry entry has a defaults map, the
  loop of \<open>load_config\<close> over it ends without raising, and the configuration after
  the loop differs from the loaded one exactly so: an attribute whose loaded value is
  None and whose name is a key of the defaults map holds the default; every other
  attribute, so every attribute with a value other than None, holds its loaded value.
  Whenever \<open>load_config\<close> returns, the configuration it returns is that one.
\<close>

theorem load_config_defaults_frame:
  assumes "n \<in> set list_services"
  shows "\<exists>info ds config.
           get_service_info n = Inr info \<and> info_defaults info = Some ds
           \<and> apply_defaults ds loaded = Inr config
           \<and> (\<forall>key. getattr config key =
                  (if getattr loaded key = PNone \<and> key \<in> fst ` set ds
                   then PStr (the (map_of ds key)) else getattr loaded key))
           \<and> (\<forall>r. load_config py_str (Inr loaded) n = Inr r \<longrightarrow> fst r = config)"
proof -
  from assms obtain info where info: "map_of REGISTRY n = Some info"
    by (cases "map_of REGISTRY n") (auto simp: list_services_def map_of_eq_None_iff)
  from registry_defaults_are_fields [OF info] obtain ds
    where ds: "info_defaults info = Some ds" and sub: "fst ` set ds \<subseteq> set field_names"
    by blast
  from apply_defaults_frame [OF sub, of loaded] obtain config
    where config: "apply_defaults ds loaded = Inr config"
      and frame: "\<forall>k. getattr config k =
                  (if getattr loaded k = PNone \<and> k \<in> fst ` set ds
                   then PStr (the (map_of ds k)) else getattr loaded k)"
    by blast
  have "fst r = config" if "load_config py_str (Inr loaded) n = Inr r" for r
    using that unfolding load_config_after_defaults [OF info ds config]
    by (auto split: sum.splits)
  with get_service_info_registered [OF info] ds config frame show ?thesis by blast
qed



lemma load_config_highway:
  "\<exists>config. load_config py_str (Inr loaded) ''highway'' =
     Inr (config, ''openid'',
          Some (exchange_hook py_str
                  ''https://highway.esa.int/sso/auth/realms/highway/protocol/openid-connect/token''
                  ''highway-public'' ''DESP_IAM_PROD'' (Some ''highway-public'')))"
proof -
  let ?info = "the (map_of REGISTRY ''highway'')"
  have info: "map_of REGISTRY ''highway'' = Some ?info" by (simp add: registry_lookup(6))
  from registry_defaults_are_fields [OF info] obtain ds
    where ds: "info_defaults ?info = Some ds" and sub: "fst ` set ds \<subseteq> set field_names"
    by blast
  from apply_defaults_frame [OF sub, of loaded] obtain config
    where config: "apply_defaults ds loaded = Inr config" by blast
  have "load_config py_str (Inr loaded) ''highway'' =
     Inr (config, ''openid'',
          Some (exchange_hook py_str
                  ''https://highway.esa.int/sso/auth/realms/highway/protocol/openid-connect/token''
                  ''highway-public'' ''DESP_IAM_PROD'' (Some ''highway-public'')))"
    unfolding load_config_after_defaults [OF info ds config]
    by (simp add: registry_lookup(6) build_hook_def dict_index_def read_local_def)
  then show ?thesis by blast
qed

theorem load_config_without_exchange_raises_witness:
  "load_config (\<lambda>v. []) (Inr BaseConfig_defaults) ''cacheb'' = Inl (UnboundLocalError ''hook'')"
  using load_config_without_exchange_raises [of "\<lambda>v. []" BaseConfig_defaults]
  by simp

theorem load_config_defaults_frame_witness:
  "''highway'' \<in> set list_services
   \<and> (case load_config (\<lambda>v. []) (Inr (BaseConfig_defaults\<lparr>iam_client := PStr ''mine''\<rparr>)) ''highway'' of
        Inl e \<Rightarrow> False
      | Inr (config, sc, h) \<Rightarrow>
          iam_client config = PStr ''mine''
          \<and> iam_redirect_uri config =
              PStr ''https://highway.esa.int/sso/auth/realms/highway/broker/DESP_IAM_PROD/endpoint''
          \<and> iam_url config = PStr ''https://auth.destine.eu'')"
proof -
  let ?loaded = "BaseConfig_defaults\<lparr>iam_client := PStr ''mine''\<rparr>"
  have mem: "''highway'' \<in> set list_services" by (simp add: list_services_eq)
  from load_config_defaults_frame [OF mem, of ?loaded "\<lambda>v. []"] obtain info ds config
    where a: "get_service_info ''highway'' = Inr info"
      and b: "info_defaults info = Some ds"
      and frame: "\<And>key. getattr config key =
                  (if getattr ?loaded key = PNone \<and> key \<in> fst ` set ds
                   then PStr (the (map_of ds key)) else getattr ?loaded key)"
      and ret: "\<And>r. load_config (\<lambda>v. []) (Inr ?loaded) ''highway'' = Inr r \<Longrightarrow> fst r = config"
    by blast
  from a b have ds: "ds = [(''iam_client'', ''highway-public''),
         (''iam_redirect_uri'',
            ''https://highway.esa.int/sso/auth/realms/highway/broker/DESP_IAM_PROD/endpoint'')]"
    using get_service_info_registered [OF registry_lookup(6)] by auto
  have 1: "iam_client config = PStr ''mine''"
    using frame [of "''iam_client''"] by (simp add: getattr_def)
  have 2: "iam_redirect_uri config =
      PStr ''https://highway.esa.int/sso/auth/realms/highway/broker/DESP_IAM_PROD/endpoint''"
    using frame [of "''iam_redirect_uri''"] unfolding ds
    by (simp add: getattr_def BaseConfig_defaults_def)
  have 3: "iam_url config = PStr ''https://auth.destine.eu''"
    using frame [of "''iam_url''"] unfolding ds
    by (simp add: getattr_def BaseConfig_defaults_def)
  obtain r where r: "load_config (\<lambda>v. []) (Inr ?loaded) ''highway'' = Inr r"
    using load_config_highway [of "\<lambda>v. []" ?loaded] by blast
  from ret [OF r] have "fst r = config" .
  with r 1 2 3 mem show ?thesis by (cases r) auto
qed

lemma exchange_hook_apply:
  "exchange_hook py_str u a s c access_token cfg w =
     token_exchange py_str u access_token c a s None (Some 10) w"
  by (simp add: exchange_hook_def)

text \<open>
  C6. For the service "highway" \<open>load_config\<close> returns a hook, with the scope
  "openid". Applied to any access token, any configuration and any world, the hook
  makes the one token-exchange request to
  "https://highway.esa.int/sso/auth/realms/highway/protocol/openid-connect/token"
  with audience "highway-public", subject issuer "DESP_IAM_PROD", client id
  "highway-public" and the access token as subject token; its result is what
  \<open>token_exchange\<close> makes of the answer, so the exchanged token whenever the answer
  has status 200 and holds a truthy \<open>access_token\<close>.
\<close>

theorem load_config_highway_hook:
  "\<exists>config h.
     load_config py_str (Inr loaded) ''highway'' = Inr (config, ''openid'', Some h)
     \<and> (\<forall>access_token cfg w.
          (let req =
             \<lparr>url = ''https://highway.esa.int/sso/auth/realms/highway/protocol/openid-connect/token'',
              data = [(''grant_type'', Some ''urn:ietf:params:oauth:grant-type:token-exchange''),
                      (''subject_token'', Some access_token),
                      (''subject_issuer'', Some ''DESP_IAM_PROD''),
                      (''subject_token_type'', Some ''urn:ietf:params:oauth:token-type:access_token''),
                      (''client_id'', Some ''highway-public''),
                      (''audience'', Some ''highway-public'')],
              timeout = 10\<rparr>
           in snd (h access_token cfg w) = w\<lparr>sent := sent w @ [req]\<rparr>
              \<and> fst (h access_token cfg w) =
                  (case respond w (sent w) req of
                     Inl e \<Rightarrow> Inl e
                   | Inr response \<Rightarrow> exchange_result py_str response)
              \<and> (\<forall>response result tok.
                    respond w (sent w) req = Inr response \<and> status_code response = 200
                    \<and> json response = Some (JObj result)
                    \<and> map_of result ''access_token'' = Some tok \<and> truthy tok
                    \<longrightarrow> fst (h access_token cfg w) = Inr tok)))"
proof -
  let ?u = "''https://highway.esa.int/sso/auth/realms/highway/protocol/openid-connect/token''"
  let ?h = "exchange_hook py_str ?u ''highway-public'' ''DESP_IAM_PROD'' (Some ''highway-public'')"
  let ?req = "\<lambda>access_token.
     exchange_request ?u access_token (Some ''highway-public'') ''highway-public'' ''DESP_IAM_PROD''
       None (Some 10)"
  from load_config_highway [of py_str loaded] obtain config
    where lc: "load_config py_str (Inr loaded) ''highway'' = Inr (config, ''openid'', Some ?h)"
    by blast
  have s: "snd (?h access_token cfg w) = w\<lparr>sent := sent w @ [?req access_token]\<rparr>"
    for access_token cfg w
    by (simp add: exchange_hook_apply token_exchange_snd)
  have f: "fst (?h access_token cfg w) =
      (case respond w (sent w) (?req access_token) of
         Inl e \<Rightarrow> Inl e
       | Inr response \<Rightarrow> exchange_result py_str response)"
    for access_token cfg w
    by (simp add: exchange_hook_apply token_exchange_fst)
  have r: "fst (?h access_token cfg w) = Inr tok"
    if "respond w (sent w) (?req access_token) = Inr response" and "status_code response = 200"
      and "json response = Some (JObj result)"
      and "map_of result ''access_token'' = Some tok" and "truthy tok"
    for access_token cfg w response result tok
    using that by (simp add: f exchange_result_ok)
  have lit: "?req access_token =
       \<lparr>url = ?u,
        data = [(''grant_type'', Some ''urn:ietf:params:oauth:grant-type:token-exchange''),
                (''subject_token'', Some access_token),
                (''subject_issuer'', Some ''DESP_IAM_PROD''),
                (''subject_token_type'', Some ''urn:ietf:params:oauth:token-type:access_token''),
                (''client_id'', Some ''highway-public''),
                (''audience'', Some ''highway-public'')],
        timeout = 10\<rparr>" for access_token
    unfolding exchange_request_literal by simp
  have "\<forall>access_token cfg w.
          snd (?h access_token cfg w) = w\<lparr>sent := sent w @ [?req access_token]\<rparr>
          \<and> fst (?h access_token cfg w) =
              (case respond w (sent w) (?req access_token) of
                 Inl e \<Rightarrow> Inl e
               | Inr response \<Rightarrow> exchange_result py_str response)
          \<and> (\<forall>response result tok.
                respond w (sent w) (?req access_token) = Inr response \<and> status_code response = 200
                \<and> json response = Some (JObj result)
                \<and> map_of result ''access_token'' = Some tok \<and> truthy tok
                \<longrightarrow> fst (?h access_token cfg w) = Inr tok)"
    using s f r by blast
  with lc show ?thesis
    unfolding Let_def lit by blast
qed

theorem load_config_highway_hook_witness:
  "(case load_config (\<lambda>v. []) (Inr BaseConfig_defaults) ''highway'' of
      Inr (config, sc, Some h) \<Rightarrow>
        sc = ''openid''
        \<and> fst (h ''abc'' config
             \<lparr>respond = (\<lambda>log req.
                  if url req = ''https://highway.esa.int/sso/auth/realms/highway/protocol/openid-connect/token''
                  then Inr \<lparr>status_code = 200, body_text = ''{\"access_token\": \"xyz\"}'',
                            json = Some (JObj [(''access_token'', JStr ''xyz'')])\<rparr>
                  else Inl (ExternalError ''unreachable'')),
              sent = [], logger_level = 20\<rparr>) = Inr (JStr ''xyz'')
    | _ \<Rightarrow> False)"
proof -
  let ?w = "\<lparr>respond = (\<lambda>log req.
                  if url req = ''https://highway.esa.int/sso/auth/realms/highway/protocol/openid-connect/token''
                  then Inr \<lparr>status_code = 200, body_text = ''{\"access_token\": \"xyz\"}'',
                            json = Some (JObj [(''access_token'', JStr ''xyz'')])\<rparr>
                  else Inl (ExternalError ''unreachable'')),
              sent = [], logger_level = 20\<rparr>"
  from load_config_highway_hook [of "\<lambda>v. []" BaseConfig_defaults] obtain config h
    where lc: "load_config (\<lambda>v. []) (Inr BaseConfig_defaults) ''highway'' =
                 Inr (config, ''openid'', Some h)"
      and hk: "\<And>access_token cfg w.
          (let req =
             \<lparr>url = ''https://highway.esa.int/sso/auth/realms/highway/protocol/openid-connect/token'',
              data = [(''grant_type'', Some ''urn:ietf:params:oauth:grant-type:token-exchange''),
                      (''subject_token'', Some access_token),
                      (''subject_issuer'', Some ''DESP_IAM_PROD''),
                      (''subject_token_type'', Some ''urn:ietf:params:oauth:token-type:access_token''),
                      (''client_id'', Some ''highway-public''),
                      (''audience'', Some ''highway-public'')],
              timeout = 10\<rparr>
           in snd (h access_token cfg w) = w\<lparr>sent := sent w @ [req]\<rparr>
              \<and> fst (h access_token cfg w) =
                  (case respond w (sent w) req of
                     Inl e \<Rightarrow> Inl e
                   | Inr response \<Rightarrow> exchange_result (\<lambda>v. []) response)
              \<and> (\<forall>response result tok.
                    respond w (sent w) req = Inr response \<and> status_code response = 200
                    \<and> json response = Some (JObj result)
                    \<and> map_of result ''access_token'' = Some tok \<and> truthy tok
                    \<longrightarrow> fst (h access_token cfg w) = Inr tok))"
    by blast
  from hk [of "''abc''" config ?w]
  have "fst (h ''abc'' config ?w) = Inr (JStr ''xyz'')"
    by (simp add: Let_def exchange_result_def dict_get_def)
  with lc show ?thesis by simp
qed



section \<open>Properties of the public API\<close>

lemma get_token_after_load:
  assumes "load_config py_str conflator_load service = Inr (config, sc, h)"
  shows "get_token py_str conflator_load auth service write_netrc verbose twofa otp w =
     (case AuthenticationService auth config sc h
             (w\<lparr>logger_level := (if \<not> verbose then logging_INFO else logging_DEBUG)\<rparr>) of
        (Inl e, w2) \<Rightarrow> (Inl e, w2)
      | (Inr auth_service, w2) \<Rightarrow>
          (case (if twofa
                 then login_2fa auth auth_service write_netrc otp w2
                 else login auth auth_service write_netrc w2) of
             (Inl e, w3) \<Rightarrow> (Inl e, w3)
           | (Inr result, w3) \<Rightarrow>
               if \<not> write_netrc then (Inr (Some result), w3) else (Inr None, w3)))"
  using assms by (simp add: get_token_def Let_def)

lemma get_token_load_failure:
  assumes "load_config py_str conflator_load service = Inl e"
  shows "fst (get_token py_str conflator_load auth service write_netrc verbose twofa otp w) = Inl e"
  using assms by (simp add: get_token_def Let_def)

text \<open>
  C5. A call of \<open>get_token\<close> with \<open>write_netrc\<close> true that does not raise returns
  None. A call with \<open>write_netrc\<close> false that does not raise returns exactly the
  result of \<open>login_2fa\<close> (when \<open>twofa\<close> is true) or of \<open>login\<close> (otherwise), called
  on the service object built from the loaded configuration, scope and hook, and
  leaves the world as that call left it.
\<close>

theorem get_token_result:
  "(get_token py_str conflator_load auth service True verbose twofa otp w = (Inr r, w')
      \<longrightarrow> r = None)
   \<and> (get_token py_str conflator_load auth service False verbose twofa otp w = (Inr r, w')
      \<longrightarrow> (\<exists>config sc h auth_service w2 result.
             load_config py_str conflator_load service = Inr (config, sc, h)
             \<and> AuthenticationService auth config sc h
                  (w\<lparr>logger_level := (if \<not> verbose then logging_INFO else logging_DEBUG)\<rparr>)
                = (Inr auth_service, w2)
             \<and> (if twofa then login_2fa auth auth_service False otp w2
                 else login auth auth_service False w2) = (Inr result, w')
             \<and> r = Some result))"
proof (cases "load_config py_str conflator_load service")
  case (Inl e)
  from get_token_load_failure [OF Inl] show ?thesis
    by (metis fst_conv sum.distinct(1))
next
  case (Inr t)
  obtain config sc h where t: "t = (config, sc, h)" by (cases t)
  note lc = Inr [unfolded t]
  have a: "r = None"
    if "get_token py_str conflator_load auth service True verbose twofa otp w = (Inr r, w')"
    using that unfolding get_token_after_load [OF lc]
    by (auto split: prod.splits sum.splits if_splits)
  have b: "\<exists>auth_service w2 result.
             AuthenticationService auth config sc h
                  (w\<lparr>logger_level := (if \<not> verbose then logging_INFO else logging_DEBUG)\<rparr>)
                = (Inr auth_service, w2)
             \<and> (if twofa then login_2fa auth auth_service False otp w2
                 else login auth auth_service False w2) = (Inr result, w')
             \<and> r = Some result"
    if "get_token py_str conflator_load auth service False verbose twofa otp w = (Inr r, w')"
    using that unfolding get_token_after_load [OF lc]
    by (auto split: prod.splits sum.splits if_splits)
  from a b lc show ?thesis by blast
qed

theorem get_token_result_witness:
  "fst (get_token (\<lambda>v. []) (Inr BaseConfig_defaults)
          \<lparr>AuthenticationService = (\<lambda>config sc h w. (Inr (), w)),
           login = (\<lambda>svc wn w. (Inr ''tok'', w)),
           login_2fa = (\<lambda>svc wn otp w. (Inr ''tok2'', w))\<rparr>
          ''highway'' True False False None
          \<lparr>respond = (\<lambda>log req. Inl (ExternalError ''timeout'')), sent = [], logger_level = 0\<rparr>)
     = Inr None
   \<and> fst (get_token (\<lambda>v. []) (Inr BaseConfig_defaults)
          \<lparr>AuthenticationService = (\<lambda>config sc h w. (Inr (), w)),
           login = (\<lambda>svc wn w. (Inr ''tok'', w)),
           login_2fa = (\<lambda>svc wn otp w. (Inr ''tok2'', w))\<rparr>
          ''highway'' False False True (Some ''123456'')
          \<lparr>respond = (\<lambda>log req. Inl (ExternalError ''timeout'')), sent = [], logger_level = 0\<rparr>)
     = Inr (Some ''tok2'')"
proof -
  let ?auth = "\<lparr>AuthenticationService = (\<lambda>config sc h w. (Inr (), w)),
           login = (\<lambda>svc wn w. (Inr ''tok'', w)),
           login_2fa = (\<lambda>svc wn otp w. (Inr ''tok2'', w))\<rparr>
           :: (unit, string) authentication"
  let ?w = "\<lparr>respond = (\<lambda>log req. Inl (ExternalError ''timeout'')), sent = [], logger_level = 0\<rparr>"
  from load_config_highway [of "\<lambda>v. []" BaseConfig_defaults] obtain config h
    where lc: "load_config (\<lambda>v. []) (Inr BaseConfig_defaults) ''highway'' =
                 Inr (config, ''openid'', Some h)"
    by blast
  obtain r1 w1 where g1: "get_token (\<lambda>v. []) (Inr BaseConfig_defaults) ?auth
          ''highway'' True False False None ?w = (Inr r1, w1)"
    by (simp add: get_token_after_load [OF lc])
  obtain r2 w2 where g2: "get_token (\<lambda>v. []) (Inr BaseConfig_defaults) ?auth
          ''highway'' False False True (Some ''123456'') ?w = (Inr r2, w2)"
    by (simp add: get_token_after_load [OF lc])
  from get_token_result [of "\<lambda>v. []" "Inr BaseConfig_defaults" ?auth "''highway''" False False
      None ?w r1 w1] g1
  have 1: "r1 = None" by blast
  from get_token_result [of "\<lambda>v. []" "Inr BaseConfig_defaults" ?auth "''highway''" False True
      "Some ''123456''" ?w r2 w2] g2
  have 2: "r2 = Some ''tok2''" by (auto split: if_splits)
  from g1 g2 1 2 show ?thesis by simp
qed

text \<open>
  C10. With \<open>twofa\<close> false, \<open>get_token\<close> does not depend on \<open>otp\<close>: for any two
  values of \<open>otp\<close> (None included) the result and the world afterwards are the same.
  It does not depend on the method \<open>login_2fa\<close> either, which is never called.
\<close>

theorem get_token_ignores_otp_without_twofa:
  "get_token py_str conflator_load auth service write_netrc verbose False otp1 w =
     get_token py_str conflator_load auth service write_netrc verbose False otp2 w
   \<and> get_token py_str conflator_load (auth\<lparr>login_2fa := f\<rparr>) service write_netrc verbose False otp1 w =
     get_token py_str conflator_load auth service write_netrc verbose False otp1 w"
  by (simp add: get_token_def Let_def split: sum.split prod.split)

theorem get_token_ignores_otp_without_twofa_witness:
  "get_token (\<lambda>v. []) (Inr BaseConfig_defaults)
          \<lparr>AuthenticationService = (\<lambda>config sc h w. (Inr (), w)),
           login = (\<lambda>svc wn w. (Inr ''tok'', w)),
           login_2fa = (\<lambda>svc wn otp w. (Inr (the otp), w))\<rparr>
          ''highway'' False False False (Some ''123456'')
          \<lparr>respond = (\<lambda>log req. Inl (ExternalError ''timeout'')), sent = [], logger_level = 0\<rparr>
   = get_token (\<lambda>v. []) (Inr BaseConfig_defaults)
          \<lparr>AuthenticationService = (\<lambda>config sc h w. (Inr (), w)),
           login = (\<lambda>svc wn w. (Inr ''tok'', w)),
           login_2fa = (\<lambda>svc wn otp w. (Inr (the otp), w))\<rparr>
          ''highway'' False False False None
          \<lparr>respond = (\<lambda>log req. Inl (ExternalError ''timeout'')), sent = [], logger_level = 0\<rparr>"
  using get_token_ignores_otp_without_twofa [of "\<lambda>v. []" "Inr BaseConfig_defaults"
          "\<lparr>AuthenticationService = (\<lambda>config sc h w. (Inr (), w)),
           login = (\<lambda>svc wn w. (Inr ''tok'', w)),
           login_2fa = (\<lambda>svc wn otp w. (Inr (the otp), w))\<rparr>"
          "''highway''" False False "Some ''123456''"
          "\<lparr>respond = (\<lambda>log req. Inl (ExternalError ''timeout'')), sent = [], logger_level = 0\<rparr>"
          None]
  by blast

end
